theory Spec2Isabelle
  imports Complex_Main
begin

section \<open>The math problem solver page (app.py)\<close>

text \<open>
  The application is one Streamlit script. Streamlit executes the script from its first
  line to its last on every user interaction; the only data that survives from one
  execution to the next is \<^verbatim>\<open>st.session_state\<close> and the current values of the
  widgets. One execution of the script is modelled as the function \<open>script\<close>: it
  takes the outcomes of the two guarded library calls, the widget values of this
  execution and the session state, and returns the new session state, the calls made to
  the page and to the libraries in the order the script makes them, and how the
  execution ended.

  Exceptions are values. The script has two handlers (around \<^verbatim>\<open>ChatGroq(...)\<close> and
  around \<^verbatim>\<open>assistant_agent.run(...)\<close>), so these two calls have an error branch, the
  error being the text \<^verbatim>\<open>str(e)\<close> of the exception. \<^verbatim>\<open>st.stop()\<close> and
  \<^verbatim>\<open>st.experimental_rerun()\<close> end the execution where they are called. The other
  library calls stand outside every handler and are taken to return. An execution is
  taken to run undisturbed: Streamlit interrupting a running script because of a new
  interaction is not part of the model.
\<close>

subsection \<open>Conversation records and session state\<close>

text \<open>A record of \<^verbatim>\<open>st.session_state.messages\<close>: a dict with the keys role and content.\<close>

record message =
  role :: string
  content :: string

definition user_message :: "string \<Rightarrow> message" where
  "user_message q = \<lparr>role = ''user'', content = q\<rparr>"

definition assistant_message :: "string \<Rightarrow> message" where
  "assistant_message r = \<lparr>role = ''assistant'', content = r\<rparr>"

text \<open>
  The session state holds at most the key \<^verbatim>\<open>messages\<close>; \<open>None\<close> is a session state
  without that key.
\<close>

record session =
  messages :: "message list option"

definition greeting :: message where
  "greeting = assistant_message
     ''Hi, I'm your Math Problem Solver! Ask me any math question or problem, and I'll solve it step-by-step.''"

text \<open>Lines 178-181: the key is created, with the greeting, when it is absent.\<close>

definition seed_messages :: "session \<Rightarrow> message list" where
  "seed_messages s = (case messages s of None \<Rightarrow> [greeting] | Some ms \<Rightarrow> ms)"

text \<open>The records a session holds; none when the key is absent.\<close>

definition records :: "session \<Rightarrow> message list" where
  "records s = (case messages s of None \<Rightarrow> [] | Some ms \<Rightarrow> ms)"

subsection \<open>Configuration widgets\<close>

text \<open>\<^verbatim>\<open>model_options\<close>, a dict literal; Python keeps the order of insertion.\<close>

definition model_options :: "(string \<times> string) list" where
  "model_options =
     [(''gemma2-9b-it'', ''Gemma 2 9B (Fast)''),
      (''llama3-8b-8192'', ''Llama 3 8B (Balanced)''),
      (''llama3-70b-8192'', ''Llama 3 70B (Powerful)''),
      (''mixtral-8x7b-32768'', ''Mixtral 8x7B (Comprehensive)'')]"

record selectbox =
  options :: "string list"
  index :: nat

definition model_selectbox :: selectbox where
  "model_selectbox = \<lparr>options = map fst model_options, index = 0\<rparr>"

text \<open>The value of a select box nobody has touched; an index outside the options raises.\<close>

definition selectbox_default :: "selectbox \<Rightarrow> string option" where
  "selectbox_default b =
     (if index b < length (options b) then Some (options b ! index b) else None)"

record slider =
  min_value :: real
  max_value :: real
  initial_value :: real
  step :: real

definition temperature_slider :: slider where
  "temperature_slider = \<lparr>min_value = 0.0, max_value = 1.0, initial_value = 0.2, step = 0.1\<rparr>"

definition show_reasoning_checkbox :: bool where
  "show_reasoning_checkbox = True"

text \<open>\<^verbatim>\<open>os.getenv("GROQ_API_KEY", "")\<close>: the variable when it is set, the empty text otherwise.\<close>

definition default_api_key :: "string option \<Rightarrow> string" where
  "default_api_key var = (case var of None \<Rightarrow> [] | Some k \<Rightarrow> k)"

text \<open>
  Streamlit reports a button as pressed only in the execution that the click on it
  started, so one execution sees at most one pressed button.
\<close>

datatype click = NoClick | SolveClick | ExampleClick nat

text \<open>The widget values one execution of the script reads.\<close>

record widgets =
  groq_api_key :: string
  selected_model :: string
  temperature :: real
  show_reasoning :: bool
  question :: string
  clicked :: click

text \<open>The widget values of a session in which the user has touched nothing.\<close>

definition fresh_widgets :: "string option \<Rightarrow> widgets option" where
  "fresh_widgets var =
     (case selectbox_default model_selectbox of
        None \<Rightarrow> None
      | Some m \<Rightarrow> Some \<lparr>groq_api_key = default_api_key var, selected_model = m,
                       temperature = initial_value temperature_slider,
                       show_reasoning = show_reasoning_checkbox,
                       question = [], clicked = NoClick\<rparr>)"

subsection \<open>Model client, tools, agent\<close>

text \<open>The arguments of \<^verbatim>\<open>ChatGroq(...)\<close>, lines 93-98.\<close>

record llm =
  model :: string
  llm_api_key :: string
  llm_temperature :: real
  streaming :: bool

definition chat_groq_args :: "widgets \<Rightarrow> llm" where
  "chat_groq_args w =
     \<lparr>model = selected_model w, llm_api_key = groq_api_key w,
      llm_temperature = temperature w, streaming = True\<rparr>"

datatype tool_func = LLMMathChain_run llm | LLMChain_run llm string

datatype tool =
    WikipediaQueryRun nat
  | ArxivQueryRun nat
  | DuckDuckGoSearchRun
  | Tool string string tool_func

definition nl :: string where
  "nl = [CHR 0x0A]"

definition reasoning_prompt :: string where
  "reasoning_prompt = concat
     [nl,
      ''    You're an expert mathematics teacher. Solve the following problem step by step:'', nl,
      ''    '', nl,
      ''    {question}'', nl,
      ''    '', nl,
      ''    First, identify what information is given and what is being asked.'', nl,
      ''    Then, lay out a clear strategy for solving the problem.'', nl,
      ''    Show your work carefully, with each step clearly labeled.'', nl,
      ''    Provide a final answer with appropriate units if applicable.'', nl,
      ''    '', nl,
      ''    Your solution:'', nl,
      ''    '']"

text \<open>
  \<^verbatim>\<open>setup_tools\<close>, lines 104-150. The source reads the global \<^verbatim>\<open>llm\<close>; here it is
  the argument. A lookup tool carries the \<^verbatim>\<open>top_k_results\<close> of its wrapper, a
  \<^verbatim>\<open>Tool\<close> its name, its description and the chain whose \<^verbatim>\<open>run\<close> it calls.
\<close>

definition setup_tools :: "llm \<Rightarrow> tool list" where
  "setup_tools l =
     (let wiki_tool = WikipediaQueryRun 2;
          arxiv_tool = ArxivQueryRun 1;
          search_tool = DuckDuckGoSearchRun;
          calculator = Tool ''Calculator''
            ''A tool for performing mathematical calculations. Input only mathematical expressions.''
            (LLMMathChain_run l);
          reasoning_tool = Tool ''MathReasoning''
            ''A tool for solving math problems step-by-step with detailed explanations.''
            (LLMChain_run l reasoning_prompt)
      in [wiki_tool, arxiv_tool, search_tool, calculator, reasoning_tool])"

datatype agent_type = ZERO_SHOT_REACT_DESCRIPTION

definition system_message :: string where
  "system_message = concat
     [nl,
      ''    You are an expert mathematics tutor and problem solver. Your goal is to:'', nl,
      ''    1. Solve mathematical problems accurately'', nl,
      ''    2. Provide clear, step-by-step explanations'', nl,
      ''    3. Use the appropriate tools for calculations and information gathering'', nl,
      ''    4. Organize your answers in a structured format with headings'', nl,
      ''    5. Include formulas and equations where relevant'', nl,
      ''    '', nl,
      ''    For math problems, always show your work and explain your thinking.'', nl,
      ''    For information queries, cite your sources where appropriate.'', nl,
      ''    '']"

record agent =
  agent_tools :: "tool list"
  agent_llm :: llm
  agent_kind :: agent_type
  verbose :: bool
  handle_parsing_errors :: bool
  agent_system_message :: string
  early_stopping_method :: string

text \<open>
  \<^verbatim>\<open>initialize_math_agent\<close>, lines 153-175; the globals \<^verbatim>\<open>llm\<close> and
  \<^verbatim>\<open>show_reasoning\<close> are arguments.
\<close>

definition initialize_math_agent :: "llm \<Rightarrow> bool \<Rightarrow> tool list \<Rightarrow> agent" where
  "initialize_math_agent l show tools =
     \<lparr>agent_tools = tools, agent_llm = l, agent_kind = ZERO_SHOT_REACT_DESCRIPTION,
      verbose = show, handle_parsing_errors = True,
      agent_system_message = system_message, early_stopping_method = ''generate''\<rparr>"

text \<open>
  The naming of the five tools in the words of the specification, to state the order of
  the registry.
\<close>

datatype tool_kind =
    EncyclopediaLookup nat
  | AcademicPaperLookup nat
  | WebSearch
  | Calculator
  | StepReasoning

fun kind_of :: "tool \<Rightarrow> tool_kind" where
  "kind_of (WikipediaQueryRun k) = EncyclopediaLookup k"
| "kind_of (ArxivQueryRun k) = AcademicPaperLookup k"
| "kind_of DuckDuckGoSearchRun = WebSearch"
| "kind_of (Tool n d (LLMMathChain_run l)) = Calculator"
| "kind_of (Tool n d (LLMChain_run l p)) = StepReasoning"

subsection \<open>The outside world\<close>

text \<open>
  What the two guarded calls do in one execution: \<open>chat_groq\<close> is \<open>Some e\<close> when the
  constructor raises the exception with text \<open>e\<close>; \<open>agent_run\<close> is \<open>Inl e\<close> when
  \<^verbatim>\<open>assistant_agent.run\<close> raises and \<open>Inr r\<close> when it returns the answer \<open>r\<close>.
\<close>

record env =
  chat_groq :: "llm \<Rightarrow> string option"
  agent_run :: "agent \<Rightarrow> string \<Rightarrow> string + string"

subsection \<open>Calls the script makes\<close>

datatype effect =
    PageHeader
  | SidebarConfig
  | Info string
  | SidebarInfo string
  | Markdown string
  | Error string
  | ConstructLLM llm
  | ChatMessage string string
  | Tabs
  | TextArea
  | SolveButton
  | ExampleButton nat
  | SetupTools "tool list"
  | InitAgent agent
  | AssistantContainer
  | CallbackHandler bool
  | AgentRun agent string
  | Write string
  | Footer

datatype outcome = Completed | Stopped | RerunRequested

subsection \<open>The script\<close>

text \<open>Lines 20-72: page title and description, then the sidebar with its four widgets.\<close>

definition page_top :: "effect list" where
  "page_top = [PageHeader, SidebarConfig]"

text \<open>Lines 75-89: what is shown when no key is configured.\<close>

definition example_problem_display :: string where
  "example_problem_display = concat
     [nl,
      ''    ```'', nl,
      ''    I have 5 bananas and 7 grapes. I eat 2 bananas and give away 3 grapes. '', nl,
      ''    Then I buy a dozen apples and 2 packs of blueberries. '', nl,
      ''    Each pack of blueberries contains 25 berries. '', nl,
      ''    How many total pieces of fruit do I have at the end?'', nl,
      ''    ```'', nl,
      ''    '']"

definition no_key_page :: "effect list" where
  "no_key_page =
     [Info ''Please add your Groq API key in the sidebar to continue'',
      SidebarInfo ''Don't have an API key? Sign up at [console.groq.com](https://console.groq.com)'',
      Markdown ''### Example Problem'',
      Markdown example_problem_display]"

text \<open>Lines 184-185: the chat history.\<close>

definition display_history :: "message list \<Rightarrow> effect list" where
  "display_history ms = map (\<lambda>msg. ChatMessage (role msg) (content msg)) ms"

definition example_problems :: "string list" where
  "example_problems =
     [''Solve for x: 2x + 5 = 15'',
      ''Find the area of a circle with radius 4 cm'',
      ''If a train travels at 60 mph and takes 3 hours to reach its destination, how far did it travel?'',
      ''I have 5 bananas and 7 grapes. I eat 2 bananas and give away 3 grapes. Then I buy a dozen apples and 2 packs of blueberries. Each pack contains 25 berries. How many total pieces of fruit do I have at the end?'']"

text \<open>
  Lines 208-213, the loop over \<^verbatim>\<open>enumerate(example_problems)\<close>. Each round draws
  its button. At a pressed button the example is appended as a user record and
  \<^verbatim>\<open>st.experimental_rerun()\<close> ends the execution: the result is \<open>True\<close> and the
  buttons after it are not drawn. The assignments to \<^verbatim>\<open>question\<close> and
  \<^verbatim>\<open>solve_button\<close> before it are to local variables that nothing reads before the
  execution ends.
\<close>

fun example_buttons ::
  "click \<Rightarrow> (nat \<times> string) list \<Rightarrow> message list \<Rightarrow> message list \<times> effect list \<times> bool" where
  "example_buttons c [] ms = (ms, [], False)"
| "example_buttons c ((i, example) # rest) ms =
     (if c = ExampleClick i
      then (ms @ [user_message example], [ExampleButton i], True)
      else (case example_buttons c rest ms of
              (ms', fx, rerun) \<Rightarrow> (ms', ExampleButton i # fx, rerun)))"

text \<open>
  Lines 217-237, the body of \<^verbatim>\<open>if solve_button and question\<close>. The callback
  handler is made and handed to the run whatever \<^verbatim>\<open>show_reasoning\<close> is; the flag
  is its \<^verbatim>\<open>expand_new_thoughts\<close> and the agent's \<^verbatim>\<open>verbose\<close>.
\<close>

definition solve_handler ::
  "env \<Rightarrow> llm \<Rightarrow> bool \<Rightarrow> string \<Rightarrow> message list \<Rightarrow> message list \<times> effect list" where
  "solve_handler e l show q ms =
     (let ms1 = ms @ [user_message q];
          tools = setup_tools l;
          assistant_agent = initialize_math_agent l show tools;
          fx = [ChatMessage ''user'' q, SetupTools tools, InitAgent assistant_agent,
                AssistantContainer, CallbackHandler show, AgentRun assistant_agent q]
      in case agent_run e assistant_agent q of
           Inr response \<Rightarrow>
             (ms1 @ [assistant_message response], fx @ [Write response])
         | Inl err \<Rightarrow>
             (let error_msg = ''Error generating response: '' @ err
              in (ms1 @ [assistant_message error_msg], fx @ [Error error_msg])))"

text \<open>One execution of the script, lines 20-248.\<close>

definition script :: "env \<Rightarrow> widgets \<Rightarrow> session \<Rightarrow> session \<times> effect list \<times> outcome" where
  "script e w s =
     (if groq_api_key w = [] then (s, page_top @ no_key_page, Stopped)
      else
        let l = chat_groq_args w in
        case chat_groq e l of
          Some err \<Rightarrow>
            (s, page_top @ [ConstructLLM l, Error (''Error initializing the AI model: '' @ err)],
             Stopped)
        | None \<Rightarrow>
            (let ms = seed_messages s;
                 fx = page_top @ [ConstructLLM l] @ display_history ms
                        @ [Tabs, TextArea, SolveButton]
             in case example_buttons (clicked w) (enumerate 0 example_problems) ms of
                  (ms1, fx1, True) \<Rightarrow> (s\<lparr>messages := Some ms1\<rparr>, fx @ fx1, RerunRequested)
                | (ms1, fx1, False) \<Rightarrow>
                    (if clicked w = SolveClick \<and> question w \<noteq> []
                     then (case solve_handler e l (show_reasoning w) (question w) ms1 of
                             (ms2, fx2) \<Rightarrow>
                               (s\<lparr>messages := Some ms2\<rparr>, fx @ fx1 @ fx2 @ [Footer], Completed))
                     else (s\<lparr>messages := Some ms1\<rparr>, fx @ fx1 @ [Footer], Completed))))"

text \<open>
  One user interaction. A requested rerun executes the script once more on the session
  state the first execution left; in the rerun no button is pressed and the other
  widgets keep their values. The two executions have their own outcomes of the guarded
  calls.
\<close>

definition rerun_widgets :: "widgets \<Rightarrow> widgets" where
  "rerun_widgets w = w\<lparr>clicked := NoClick\<rparr>"

definition interact ::
  "env \<Rightarrow> env \<Rightarrow> widgets \<Rightarrow> session \<Rightarrow> session \<times> effect list \<times> outcome" where
  "interact e e' w s =
     (case script e w s of
        (s1, fx1, RerunRequested) \<Rightarrow>
          (case script e' (rerun_widgets w) s1 of (s2, fx2, out) \<Rightarrow> (s2, fx1 @ fx2, out))
      | (s1, fx1, out) \<Rightarrow> (s1, fx1, out))"

text \<open>The parts of a result.\<close>

definition session_of :: "session \<times> effect list \<times> outcome \<Rightarrow> session" where
  "session_of r = fst r"

definition effects_of :: "session \<times> effect list \<times> outcome \<Rightarrow> effect list" where
  "effects_of r = fst (snd r)"

definition outcome_of :: "session \<times> effect list \<times> outcome \<Rightarrow> outcome" where
  "outcome_of r = snd (snd r)"

text \<open>The agent the handler builds from the widget values of an execution.\<close>

definition agent_of :: "widgets \<Rightarrow> agent" where
  "agent_of w =
     initialize_math_agent (chat_groq_args w) (show_reasoning w) (setup_tools (chat_groq_args w))"

subsection \<open>Sample inputs\<close>

text \<open>
  An outside world in which the model client is constructed and the run answers, one in
  which the run raises, and a page with a key, a started conversation and the first
  example typed into the text area.
\<close>

definition answering_env :: env where
  "answering_env = \<lparr>chat_groq = (\<lambda>l. None), agent_run = (\<lambda>a q. Inr ''x = 5'')\<rparr>"

definition raising_env :: env where
  "raising_env = \<lparr>chat_groq = (\<lambda>l. None), agent_run = (\<lambda>a q. Inl ''Connection error.'')\<rparr>"

definition sample_widgets :: widgets where
  "sample_widgets =
     \<lparr>groq_api_key = ''gsk_test'', selected_model = ''gemma2-9b-it'', temperature = 0.2,
      show_reasoning = True, question = ''Solve for x: 2x + 5 = 15'', clicked = NoClick\<rparr>"

definition no_key_widgets :: widgets where
  "no_key_widgets =
     \<lparr>groq_api_key = [], selected_model = ''gemma2-9b-it'', temperature = 0.2,
      show_reasoning = True, question = [], clicked = NoClick\<rparr>"

definition started_session :: session where
  "started_session = \<lparr>messages = Some [greeting]\<rparr>"

definition new_session :: session where
  "new_session = \<lparr>messages = None\<rparr>"

section \<open>Properties\<close>

subsection \<open>The example buttons, the handler and one execution\<close>

lemma example_buttons_append:
  "\<exists>new. fst (example_buttons c xs ms) = ms @ new \<and> (\<forall>m\<in>set new. role m = ''user'')"
  by (induction xs) (auto simp: user_message_def split: prod.splits)

lemma example_buttons_NoClick:
  "example_buttons NoClick xs ms = (ms, map (\<lambda>p. ExampleButton (fst p)) xs, False)"
  by (induction xs) auto

lemma example_buttons_SolveClick:
  "example_buttons SolveClick xs ms = (ms, map (\<lambda>p. ExampleButton (fst p)) xs, False)"
  by (induction xs) auto

lemma example_buttons_effects:
  "e \<in> set (fst (snd (example_buttons c xs ms))) \<Longrightarrow> \<exists>i. e = ExampleButton i"
  by (induction xs) (auto split: prod.splits if_splits)

lemma seed_messages_records:
  "\<exists>new. seed_messages s = records s @ new \<and> (\<forall>m\<in>set new. role m = ''assistant'')"
  by (cases "messages s") (simp_all add: seed_messages_def records_def greeting_def assistant_message_def)

lemma solve_handler_records:
  "fst (solve_handler e l sh q ms) =
     ms @ [user_message q,
           assistant_message (case agent_run e (initialize_math_agent l sh (setup_tools l)) q of
              Inr response \<Rightarrow> response
            | Inl err \<Rightarrow> ''Error generating response: '' @ err)]"
  by (simp add: solve_handler_def Let_def split: sum.splits)

lemma script_solve:
  assumes "groq_api_key w \<noteq> []" "chat_groq e (chat_groq_args w) = None"
    "clicked w = SolveClick" "question w \<noteq> []"
  shows "script e w s =
     (s\<lparr>messages := Some (fst (solve_handler e (chat_groq_args w) (show_reasoning w) (question w) (seed_messages s)))\<rparr>,
      page_top @ [ConstructLLM (chat_groq_args w)] @ display_history (seed_messages s)
        @ [Tabs, TextArea, SolveButton] @ map (\<lambda>p. ExampleButton (fst p)) (enumerate 0 example_problems)
        @ snd (solve_handler e (chat_groq_args w) (show_reasoning w) (question w) (seed_messages s))
        @ [Footer],
      Completed)"
  using assms
  by (simp add: script_def Let_def example_buttons_SolveClick split: prod.splits)

lemma script_records_append:
  "\<exists>new. records (session_of (script e w s)) = records s @ new \<and>
         (\<forall>m\<in>set new. role m \<in> {''user'', ''assistant''})"
proof (cases "groq_api_key w = [] \<or> chat_groq e (chat_groq_args w) \<noteq> None")
  case True
  then have "session_of (script e w s) = s"
    by (auto simp: script_def session_of_def Let_def)
  then show ?thesis by simp
next
  case False
  obtain seeded where seeded: "seed_messages s = records s @ seeded"
    "\<forall>m\<in>set seeded. role m = ''assistant''"
    using seed_messages_records by blast
  obtain ms1 fx1 rr where eb:
    "example_buttons (clicked w) (enumerate 0 example_problems) (seed_messages s) = (ms1, fx1, rr)"
    by (cases "example_buttons (clicked w) (enumerate 0 example_problems) (seed_messages s)") auto
  obtain ex where ex: "ms1 = seed_messages s @ ex" "\<forall>m\<in>set ex. role m = ''user''"
    using example_buttons_append[of "clicked w" "enumerate 0 example_problems" "seed_messages s"] eb
    by auto
  show ?thesis
  proof (cases "rr \<or> \<not> (clicked w = SolveClick \<and> question w \<noteq> [])")
    case True
    with False eb have "records (session_of (script e w s)) = ms1"
      by (cases rr) (auto simp: script_def session_of_def Let_def records_def)
    with seeded ex show ?thesis by auto
  next
    case solve: False
    with False eb have "records (session_of (script e w s)) =
        fst (solve_handler e (chat_groq_args w) (show_reasoning w) (question w) ms1)"
      by (auto simp: script_def session_of_def Let_def records_def split: prod.splits)
    then have "records (session_of (script e w s)) =
        records s @ (seeded @ ex @ [user_message (question w),
           assistant_message (case agent_run e (initialize_math_agent (chat_groq_args w)
                (show_reasoning w) (setup_tools (chat_groq_args w))) (question w) of
              Inr response \<Rightarrow> response
            | Inl err \<Rightarrow> ''Error generating response: '' @ err)])"
      by (simp add: solve_handler_records seeded ex)
    moreover have "\<forall>m\<in>set (seeded @ ex @ [user_message (question w),
           assistant_message (case agent_run e (initialize_math_agent (chat_groq_args w)
                (show_reasoning w) (setup_tools (chat_groq_args w))) (question w) of
              Inr response \<Rightarrow> response
            | Inl err \<Rightarrow> ''Error generating response: '' @ err)]). role m \<in> {''user'', ''assistant''}"
      using seeded ex by (auto simp: user_message_def assistant_message_def)
    ultimately show ?thesis by blast
  qed
qed

lemma script_no_click_no_rerun:
  "clicked w = NoClick \<Longrightarrow> outcome_of (script e w s) \<noteq> RerunRequested"
  by (simp add: script_def outcome_of_def Let_def example_buttons_NoClick split: option.splits)

lemma interact_records_append:
  "\<exists>new. records (session_of (interact e e' w s)) = records s @ new \<and>
         (\<forall>m\<in>set new. role m \<in> {''user'', ''assistant''})"
proof -
  obtain s1 fx1 out1 where r1: "script e w s = (s1, fx1, out1)"
    by (cases "script e w s") auto
  obtain n1 where n1: "records s1 = records s @ n1" "\<forall>m\<in>set n1. role m \<in> {''user'', ''assistant''}"
    using script_records_append[of e w s] r1 by (auto simp: session_of_def)
  show ?thesis
  proof (cases "out1 = RerunRequested")
    case False
    with r1 have "session_of (interact e e' w s) = s1"
      by (cases out1) (simp_all add: interact_def session_of_def)
    with n1 show ?thesis by auto
  next
    case True
    obtain s2 fx2 out2 where r2: "script e' (rerun_widgets w) s1 = (s2, fx2, out2)"
      by (cases "script e' (rerun_widgets w) s1") auto
    obtain n2 where n2: "records s2 = records s1 @ n2" "\<forall>m\<in>set n2. role m \<in> {''user'', ''assistant''}"
      using script_records_append[of e' "rerun_widgets w" s1] r2 by (auto simp: session_of_def)
    from True r1 r2 have "session_of (interact e e' w s) = s2"
      by (simp add: interact_def session_of_def)
    with n1 n2 have "records (session_of (interact e e' w s)) = records s @ (n1 @ n2)"
      by simp
    moreover have "\<forall>m\<in>set (n1 @ n2). role m \<in> {''user'', ''assistant''}"
      using n1 n2 by auto
    ultimately show ?thesis by blast
  qed
qed

lemma script_empty_question:
  assumes "clicked w = SolveClick" and "question w = []"
  shows "script e w s =
     (if groq_api_key w = [] then (s, page_top @ no_key_page, Stopped)
      else case chat_groq e (chat_groq_args w) of
        Some err \<Rightarrow>
          (s, page_top @ [ConstructLLM (chat_groq_args w),
                Error (''Error initializing the AI model: '' @ err)], Stopped)
      | None \<Rightarrow>
          (s\<lparr>messages := Some (seed_messages s)\<rparr>,
           page_top @ [ConstructLLM (chat_groq_args w)] @ display_history (seed_messages s)
             @ [Tabs, TextArea, SolveButton]
             @ map (\<lambda>p. ExampleButton (fst p)) (enumerate 0 example_problems) @ [Footer],
           Completed))"
  using assms
  by (simp add: script_def Let_def example_buttons_SolveClick split: option.splits)

text \<open>
  Pressing an example button, for each of the four examples: the execution appends the
  user record and asks for a rerun, the rerun appends nothing, and no agent run is
  started in either.
\<close>

lemma example_buttons_click:
  assumes "i < length example_problems"
  shows "fst (example_buttons (ExampleClick i) (enumerate 0 example_problems) ms) =
           ms @ [user_message (example_problems ! i)]
         \<and> snd (snd (example_buttons (ExampleClick i) (enumerate 0 example_problems) ms))"
proof -
  from assms have "i = 0 \<or> i = 1 \<or> i = 2 \<or> i = 3"
    by (auto simp: example_problems_def)
  then show ?thesis
    by (auto simp: example_problems_def enumerate_eq_zip upt_rec)
qed

lemma example_click_interaction:
  assumes "groq_api_key w \<noteq> []" and "chat_groq e (chat_groq_args w) = None"
    and "chat_groq e' (chat_groq_args w) = None"
    and "clicked w = ExampleClick i" and "i < length example_problems"
  shows "outcome_of (script e w s) = RerunRequested"
    and "records (session_of (interact e e' w s)) =
           seed_messages s @ [user_message (example_problems ! i)]"
    and "AgentRun a q \<notin> set (effects_of (interact e e' w s))"
proof -
  obtain fx1 where eb: "example_buttons (ExampleClick i) (enumerate 0 example_problems)
      (seed_messages s) = (seed_messages s @ [user_message (example_problems ! i)], fx1, True)"
    using example_buttons_click [OF assms(5), of "seed_messages s"]
    by (cases "example_buttons (ExampleClick i) (enumerate 0 example_problems) (seed_messages s)")
       auto
  have fx1: "AgentRun a q \<notin> set fx1"
    using example_buttons_effects [of "AgentRun a q" "ExampleClick i"
        "enumerate 0 example_problems" "seed_messages s"] eb
    by auto
  have first: "script e w s =
      (s\<lparr>messages := Some (seed_messages s @ [user_message (example_problems ! i)])\<rparr>,
       page_top @ [ConstructLLM (chat_groq_args w)] @ display_history (seed_messages s)
         @ [Tabs, TextArea, SolveButton] @ fx1,
       RerunRequested)"
    using assms(1,2,4) eb by (simp add: script_def Let_def)
  show "outcome_of (script e w s) = RerunRequested"
    by (simp add: first outcome_of_def)
  have second: "script e' (rerun_widgets w)
        (s\<lparr>messages := Some (seed_messages s @ [user_message (example_problems ! i)])\<rparr>) =
      (s\<lparr>messages := Some (seed_messages s @ [user_message (example_problems ! i)])\<rparr>,
       page_top @ [ConstructLLM (chat_groq_args w)]
         @ display_history (seed_messages s @ [user_message (example_problems ! i)])
         @ [Tabs, TextArea, SolveButton]
         @ map (\<lambda>p. ExampleButton (fst p)) (enumerate 0 example_problems) @ [Footer],
       Completed)"
    using assms(1,3)
    by (simp add: script_def Let_def rerun_widgets_def chat_groq_args_def
        example_buttons_NoClick seed_messages_def)
  show "records (session_of (interact e e' w s)) =
           seed_messages s @ [user_message (example_problems ! i)]"
    by (simp add: interact_def first second session_of_def records_def)
  show "AgentRun a q \<notin> set (effects_of (interact e e' w s))"
    using fx1
    by (auto simp: interact_def first second effects_of_def page_top_def display_history_def)
qed

subsection \<open>The claims\<close>

text \<open>
  Claim C1. An execution in which the key is present, the model client is constructed,
  Solve Problem is pressed and the question is not empty leaves the conversation it found
  (the greeting alone when there was none yet) followed by exactly one user record with
  the question and then exactly one assistant record: the answer when the run returns,
  the error message when it raises. The execution runs to its end and asks for no rerun.
\<close>

theorem solve_appends_user_then_assistant:
  assumes "groq_api_key w \<noteq> []" and "chat_groq e (chat_groq_args w) = None"
    and "clicked w = SolveClick" and "question w \<noteq> []"
  shows "messages (session_of (script e w s)) =
           Some (seed_messages s @
             [user_message (question w),
              assistant_message (case agent_run e (agent_of w) (question w) of
                 Inr response \<Rightarrow> response
               | Inl err \<Rightarrow> ''Error generating response: '' @ err)])
         \<and> outcome_of (script e w s) = Completed
         \<and> interact e e' w s = script e w s"
  using assms
  by (simp add: script_solve solve_handler_records session_of_def outcome_of_def agent_of_def
      interact_def)

theorem solve_appends_user_then_assistant_witness:
  "groq_api_key (sample_widgets\<lparr>clicked := SolveClick\<rparr>) \<noteq> []
   \<and> chat_groq answering_env (chat_groq_args (sample_widgets\<lparr>clicked := SolveClick\<rparr>)) = None
   \<and> clicked (sample_widgets\<lparr>clicked := SolveClick\<rparr>) = SolveClick
   \<and> question (sample_widgets\<lparr>clicked := SolveClick\<rparr>) \<noteq> []
   \<and> messages (session_of (script answering_env (sample_widgets\<lparr>clicked := SolveClick\<rparr>) started_session)) =
       Some [greeting, user_message ''Solve for x: 2x + 5 = 15'', assistant_message ''x = 5'']
   \<and> messages (session_of (script raising_env (sample_widgets\<lparr>clicked := SolveClick\<rparr>) started_session)) =
       Some [greeting, user_message ''Solve for x: 2x + 5 = 15'',
             assistant_message ''Error generating response: Connection error.'']"
  using solve_appends_user_then_assistant
          [of "sample_widgets\<lparr>clicked := SolveClick\<rparr>" answering_env started_session answering_env]
        solve_appends_user_then_assistant
          [of "sample_widgets\<lparr>clicked := SolveClick\<rparr>" raising_env started_session raising_env]
  by (simp add: sample_widgets_def answering_env_def raising_env_def started_session_def
      seed_messages_def)

text \<open>
  Claim C2. When the run raises an exception with text \<open>err\<close>, the conversation is the
  one found, then the user record, then one assistant record whose content is
  \<^verbatim>\<open>Error generating response: \<close> followed by \<open>err\<close>, so the error text occurs in
  it literally; there is no further record. The same message is shown as an error.
\<close>

theorem run_error_recorded_once:
  assumes "groq_api_key w \<noteq> []" and "chat_groq e (chat_groq_args w) = None"
    and "clicked w = SolveClick" and "question w \<noteq> []"
    and "agent_run e (agent_of w) (question w) = Inl err"
  shows "messages (session_of (script e w s)) =
           Some (seed_messages s @
             [user_message (question w),
              assistant_message (''Error generating response: '' @ err)])
         \<and> (\<exists>before after.
               content (last (records (session_of (script e w s)))) = before @ err @ after)
         \<and> Error (''Error generating response: '' @ err) \<in> set (effects_of (script e w s))"
proof -
  have m: "messages (session_of (script e w s)) =
           Some (seed_messages s @
             [user_message (question w),
              assistant_message (''Error generating response: '' @ err)])"
    using assms
    by (simp add: script_solve solve_handler_records session_of_def agent_of_def)
  then have "content (last (records (session_of (script e w s)))) =
      ''Error generating response: '' @ err @ []"
    by (simp add: records_def assistant_message_def)
  then have c: "\<exists>before after.
      content (last (records (session_of (script e w s)))) = before @ err @ after"
    by blast
  have "Error (''Error generating response: '' @ err) \<in> set (effects_of (script e w s))"
    using assms
    by (simp add: script_solve effects_of_def solve_handler_def agent_of_def Let_def)
  with m c show ?thesis by blast
qed

theorem run_error_recorded_once_witness:
  "agent_run raising_env (agent_of (sample_widgets\<lparr>clicked := SolveClick\<rparr>))
      (question (sample_widgets\<lparr>clicked := SolveClick\<rparr>)) = Inl ''Connection error.''
   \<and> groq_api_key (sample_widgets\<lparr>clicked := SolveClick\<rparr>) \<noteq> []
   \<and> chat_groq raising_env (chat_groq_args (sample_widgets\<lparr>clicked := SolveClick\<rparr>)) = None
   \<and> clicked (sample_widgets\<lparr>clicked := SolveClick\<rparr>) = SolveClick
   \<and> question (sample_widgets\<lparr>clicked := SolveClick\<rparr>) \<noteq> []
   \<and> messages (session_of (script raising_env (sample_widgets\<lparr>clicked := SolveClick\<rparr>) started_session)) =
       Some [greeting, user_message ''Solve for x: 2x + 5 = 15'',
             assistant_message ''Error generating response: Connection error.'']"
  using run_error_recorded_once
          [of "sample_widgets\<lparr>clicked := SolveClick\<rparr>" raising_env "''Connection error.''"
              started_session]
  by (simp add: sample_widgets_def raising_env_def started_session_def seed_messages_def)

text \<open>
  Claim C3. For every model client the tool registry has exactly five tools, in the
  order encyclopedia lookup with the top 2 results, academic-paper lookup with the top 1
  result, web search, calculator, step reasoning; two clients of any configuration give
  the same kinds in the same order, and this registry is the agent's.
\<close>

theorem setup_tools_five_in_fixed_order:
  "length (setup_tools l) = 5
   \<and> map kind_of (setup_tools l) =
       [EncyclopediaLookup 2, AcademicPaperLookup 1, WebSearch, Calculator, StepReasoning]
   \<and> map kind_of (setup_tools l') = map kind_of (setup_tools l)
   \<and> agent_tools (agent_of w) = setup_tools (chat_groq_args w)"
  by (simp add: setup_tools_def agent_of_def initialize_math_agent_def)

text \<open>
  Claim C4. With an empty key the execution stops: the session state is untouched, the
  help message is shown, no model client is constructed, and neither the tabs, the text
  area, the Solve Problem button nor any example button is drawn. No rerun follows.
\<close>

theorem no_key_halts_before_client:
  assumes "groq_api_key w = []"
  shows "outcome_of (script e w s) = Stopped
         \<and> session_of (script e w s) = s
         \<and> Info ''Please add your Groq API key in the sidebar to continue''
              \<in> set (effects_of (script e w s))
         \<and> (\<forall>l. ConstructLLM l \<notin> set (effects_of (script e w s)))
         \<and> Tabs \<notin> set (effects_of (script e w s))
         \<and> TextArea \<notin> set (effects_of (script e w s))
         \<and> SolveButton \<notin> set (effects_of (script e w s))
         \<and> (\<forall>i. ExampleButton i \<notin> set (effects_of (script e w s)))
         \<and> interact e e' w s = script e w s"
  using assms
  by (simp add: script_def outcome_of_def session_of_def effects_of_def page_top_def
      no_key_page_def interact_def)

theorem no_key_halts_before_client_witness:
  "groq_api_key no_key_widgets = []
   \<and> outcome_of (script answering_env no_key_widgets new_session) = Stopped
   \<and> effects_of (script answering_env no_key_widgets new_session) = page_top @ no_key_page
   \<and> TextArea \<notin> set (effects_of (script answering_env no_key_widgets new_session))"
  using no_key_halts_before_client [of no_key_widgets answering_env new_session answering_env]
  by (simp add: no_key_widgets_def script_def effects_of_def)

text \<open>
  Claim C5, evaluated on the code. With a key, a constructed client and the greeting in
  the conversation, pressing Example 1 appends the user record and ends the execution
  with a rerun request; the rerun sees no pressed button, so the interaction ends with
  the greeting and the user record only and no agent run. Typing the same text and
  pressing Solve Problem ends with the greeting, the user record and the assistant
  record.
\<close>

theorem example_click_leaves_no_assistant_record:
  "outcome_of (script answering_env (sample_widgets\<lparr>question := [], clicked := ExampleClick 0\<rparr>)
      started_session) = RerunRequested
   \<and> records (session_of (interact answering_env answering_env
        (sample_widgets\<lparr>question := [], clicked := ExampleClick 0\<rparr>) started_session)) =
       [greeting, user_message ''Solve for x: 2x + 5 = 15'']
   \<and> AgentRun (agent_of (sample_widgets\<lparr>question := [], clicked := ExampleClick 0\<rparr>))
        ''Solve for x: 2x + 5 = 15''
       \<notin> set (effects_of (interact answering_env answering_env
            (sample_widgets\<lparr>question := [], clicked := ExampleClick 0\<rparr>) started_session))
   \<and> records (session_of (interact answering_env answering_env
        (sample_widgets\<lparr>clicked := SolveClick\<rparr>) started_session)) =
       [greeting, user_message ''Solve for x: 2x + 5 = 15'', assistant_message ''x = 5'']"
  by (simp add: interact_def script_def sample_widgets_def answering_env_def started_session_def
      seed_messages_def records_def session_of_def effects_of_def outcome_of_def
      example_problems_def enumerate_eq_zip rerun_widgets_def solve_handler_def Let_def
      page_top_def display_history_def upt_rec)

text \<open>
  Claim C7. Whatever the widget values, the session state and the outcomes of the
  library calls are, the records after one execution, and after one whole interaction
  with its rerun, are the records before followed by new ones, and every new record has
  the role user or assistant. Nothing is removed, moved or rewritten.
\<close>

theorem conversation_append_only:
  "(\<exists>new. records (session_of (script e w s)) = records s @ new \<and>
          (\<forall>m\<in>set new. role m \<in> {''user'', ''assistant''}))
   \<and> (\<exists>new. records (session_of (interact e e' w s)) = records s @ new \<and>
          (\<forall>m\<in>set new. role m \<in> {''user'', ''assistant''}))"
  using script_records_append [of e w s] interact_records_append [of e e' w s]
  by (rule conjI)

theorem conversation_append_only_witness:
  "records (session_of (script raising_env (sample_widgets\<lparr>clicked := SolveClick\<rparr>) started_session))
     = records started_session @
       [user_message ''Solve for x: 2x + 5 = 15'',
        assistant_message ''Error generating response: Connection error.'']
   \<and> (\<exists>new. records (session_of (script raising_env (sample_widgets\<lparr>clicked := SolveClick\<rparr>)
                started_session)) = records started_session @ new \<and>
          (\<forall>m\<in>set new. role m \<in> {''user'', ''assistant''}))"
  using conversation_append_only
          [of raising_env "sample_widgets\<lparr>clicked := SolveClick\<rparr>" started_session raising_env]
  by (simp add: script_solve solve_handler_records sample_widgets_def raising_env_def
      started_session_def seed_messages_def records_def session_of_def)

text \<open>
  Claim C8. When Solve Problem is pressed and the question is empty, the records stay
  as they were (a session that had no conversation yet gets the greeting, nothing
  else), no tool registry and no agent are built, no run is started, and no rerun
  follows.
\<close>

theorem empty_question_starts_no_solve:
  assumes "clicked w = SolveClick" and "question w = []"
  shows "(records (session_of (script e w s)) = records s
            \<or> messages s = None \<and> records (session_of (script e w s)) = [greeting])
         \<and> (\<forall>ts. SetupTools ts \<notin> set (effects_of (script e w s)))
         \<and> (\<forall>a. InitAgent a \<notin> set (effects_of (script e w s)))
         \<and> (\<forall>a q. AgentRun a q \<notin> set (effects_of (script e w s)))
         \<and> interact e e' w s = script e w s"
proof -
  have r: "records (session_of (script e w s)) = records s
            \<or> messages s = None \<and> records (session_of (script e w s)) = [greeting]"
    by (cases "messages s")
       (simp_all add: script_empty_question [OF assms] session_of_def records_def
          seed_messages_def split: option.splits)
  have fx: "(\<forall>ts. SetupTools ts \<notin> set (effects_of (script e w s)))
         \<and> (\<forall>a. InitAgent a \<notin> set (effects_of (script e w s)))
         \<and> (\<forall>a q. AgentRun a q \<notin> set (effects_of (script e w s)))"
    by (auto simp: script_empty_question [OF assms] effects_of_def page_top_def no_key_page_def
          display_history_def split: option.splits)
  have "interact e e' w s = script e w s"
    by (simp add: interact_def script_empty_question [OF assms] split: option.splits)
  with r fx show ?thesis by blast
qed

theorem empty_question_starts_no_solve_witness:
  "clicked (sample_widgets\<lparr>question := [], clicked := SolveClick\<rparr>) = SolveClick
   \<and> question (sample_widgets\<lparr>question := [], clicked := SolveClick\<rparr>) = []
   \<and> records (session_of (script answering_env
        (sample_widgets\<lparr>question := [], clicked := SolveClick\<rparr>) started_session)) = [greeting]
   \<and> outcome_of (script answering_env
        (sample_widgets\<lparr>question := [], clicked := SolveClick\<rparr>) started_session) = Completed
   \<and> (\<forall>a q. AgentRun a q \<notin> set (effects_of (script answering_env
        (sample_widgets\<lparr>question := [], clicked := SolveClick\<rparr>) started_session)))"
proof -
  have c: "clicked (sample_widgets\<lparr>question := [], clicked := SolveClick\<rparr>) = SolveClick"
    by simp
  have q: "question (sample_widgets\<lparr>question := [], clicked := SolveClick\<rparr>) = []"
    by simp
  note none = empty_question_starts_no_solve
                [OF c q, of answering_env started_session answering_env]
  have ran: "script answering_env (sample_widgets\<lparr>question := [], clicked := SolveClick\<rparr>)
               started_session =
             (started_session,
              page_top @ [ConstructLLM (chat_groq_args
                  (sample_widgets\<lparr>question := [], clicked := SolveClick\<rparr>))]
                @ display_history [greeting] @ [Tabs, TextArea, SolveButton]
                @ map (\<lambda>p. ExampleButton (fst p)) (enumerate 0 example_problems) @ [Footer],
              Completed)"
    by (simp add: script_empty_question sample_widgets_def answering_env_def
        started_session_def seed_messages_def)
  have "records (session_of (script answering_env
        (sample_widgets\<lparr>question := [], clicked := SolveClick\<rparr>) started_session)) = [greeting]"
    unfolding ran by (simp add: session_of_def records_def started_session_def)
  moreover have "outcome_of (script answering_env
        (sample_widgets\<lparr>question := [], clicked := SolveClick\<rparr>) started_session) = Completed"
    unfolding ran by (simp add: outcome_of_def)
  ultimately show ?thesis using c q none by blast
qed

text \<open>
  Claim C9. After a completed solve the conversation ends with its user record and its
  assistant record. Any later interaction, with whatever model identifier, temperature,
  question and button, leaves the conversation of the completed solve as the beginning
  of the new one: the two records are at the same places and equal to what they were.
\<close>

theorem config_change_keeps_completed_records:
  assumes "groq_api_key w1 \<noteq> []" and "chat_groq e1 (chat_groq_args w1) = None"
    and "clicked w1 = SolveClick" and "question w1 \<noteq> []"
  shows "(let s1 = session_of (script e1 w1 s0);
              s2 = session_of (interact e2 e2' w2 s1);
              n = length (seed_messages s0)
          in length (records s1) = n + 2
             \<and> role (records s1 ! n) = ''user''
             \<and> role (records s1 ! (n + 1)) = ''assistant''
             \<and> take (n + 2) (records s2) = records s1
             \<and> records s2 ! n = records s1 ! n
             \<and> records s2 ! (n + 1) = records s1 ! (n + 1))"
proof -
  define s1 where "s1 = session_of (script e1 w1 s0)"
  define s2 where "s2 = session_of (interact e2 e2' w2 s1)"
  define n where "n = length (seed_messages s0)"
  define a where "a = assistant_message (case agent_run e1 (agent_of w1) (question w1) of
                 Inr response \<Rightarrow> response
               | Inl err \<Rightarrow> ''Error generating response: '' @ err)"
  have r1: "records s1 = seed_messages s0 @ [user_message (question w1), a]"
    using assms
    by (simp add: s1_def a_def records_def script_solve solve_handler_records session_of_def
        agent_of_def)
  obtain new where r2: "records s2 = records s1 @ new"
    using interact_records_append [of e2 e2' w2 s1] by (auto simp: s2_def)
  have len: "length (records s1) = n + 2"
    by (simp add: r1 n_def)
  have u: "role (records s1 ! n) = ''user''"
    by (simp add: r1 n_def user_message_def)
  have as: "role (records s1 ! (n + 1)) = ''assistant''"
    by (simp add: r1 n_def nth_append a_def assistant_message_def)
  have tk: "take (n + 2) (records s2) = records s1"
    using len by (simp add: r2)
  have k1: "records s2 ! n = records s1 ! n"
    using len by (simp add: r2 nth_append)
  have k2: "records s2 ! (n + 1) = records s1 ! (n + 1)"
    using len by (simp add: r2 nth_append)
  from len u as tk k1 k2 show ?thesis
    unfolding Let_def s1_def [symmetric] s2_def [symmetric] n_def [symmetric] by blast
qed

theorem config_change_keeps_completed_records_witness:
  "groq_api_key (sample_widgets\<lparr>clicked := SolveClick\<rparr>) \<noteq> []
   \<and> chat_groq answering_env (chat_groq_args (sample_widgets\<lparr>clicked := SolveClick\<rparr>)) = None
   \<and> clicked (sample_widgets\<lparr>clicked := SolveClick\<rparr>) = SolveClick
   \<and> question (sample_widgets\<lparr>clicked := SolveClick\<rparr>) \<noteq> []
   \<and> records (session_of (script answering_env (sample_widgets\<lparr>clicked := SolveClick\<rparr>)
        started_session)) =
       [greeting, user_message ''Solve for x: 2x + 5 = 15'', assistant_message ''x = 5'']
   \<and> records (session_of (interact raising_env raising_env
        (sample_widgets\<lparr>selected_model := ''llama3-70b-8192'', temperature := 0.9,
            question := ''Find the area of a circle with radius 4 cm'', clicked := SolveClick\<rparr>)
        (session_of (script answering_env (sample_widgets\<lparr>clicked := SolveClick\<rparr>)
           started_session)))) =
       [greeting, user_message ''Solve for x: 2x + 5 = 15'', assistant_message ''x = 5'',
        user_message ''Find the area of a circle with radius 4 cm'',
        assistant_message ''Error generating response: Connection error.'']
   \<and> take (length (seed_messages started_session) + 2)
        (records (session_of (interact raising_env raising_env
          (sample_widgets\<lparr>selected_model := ''llama3-70b-8192'', temperature := 0.9,
              question := ''Find the area of a circle with radius 4 cm'', clicked := SolveClick\<rparr>)
          (session_of (script answering_env (sample_widgets\<lparr>clicked := SolveClick\<rparr>)
             started_session))))) =
       records (session_of (script answering_env (sample_widgets\<lparr>clicked := SolveClick\<rparr>)
          started_session))"
proof -
  have k: "groq_api_key (sample_widgets\<lparr>clicked := SolveClick\<rparr>) \<noteq> []"
    and c: "chat_groq answering_env (chat_groq_args (sample_widgets\<lparr>clicked := SolveClick\<rparr>)) = None"
    and b: "clicked (sample_widgets\<lparr>clicked := SolveClick\<rparr>) = SolveClick"
    and q: "question (sample_widgets\<lparr>clicked := SolveClick\<rparr>) \<noteq> []"
    by (simp_all add: sample_widgets_def answering_env_def)
  note kept = config_change_keeps_completed_records
      [OF k c b q, of started_session raising_env raising_env
         "sample_widgets\<lparr>selected_model := ''llama3-70b-8192'', temperature := 0.9,
            question := ''Find the area of a circle with radius 4 cm'', clicked := SolveClick\<rparr>",
       unfolded Let_def]
  have first: "session_of (script answering_env (sample_widgets\<lparr>clicked := SolveClick\<rparr>)
        started_session) =
       \<lparr>messages = Some [greeting, user_message ''Solve for x: 2x + 5 = 15'',
          assistant_message ''x = 5'']\<rparr>"
    by (simp add: script_solve solve_handler_records session_of_def sample_widgets_def
        answering_env_def started_session_def seed_messages_def)
  have second: "records (session_of (interact raising_env raising_env
        (sample_widgets\<lparr>selected_model := ''llama3-70b-8192'', temperature := 0.9,
            question := ''Find the area of a circle with radius 4 cm'', clicked := SolveClick\<rparr>)
        \<lparr>messages = Some [greeting, user_message ''Solve for x: 2x + 5 = 15'',
          assistant_message ''x = 5'']\<rparr>)) =
       [greeting, user_message ''Solve for x: 2x + 5 = 15'', assistant_message ''x = 5'',
        user_message ''Find the area of a circle with radius 4 cm'',
        assistant_message ''Error generating response: Connection error.'']"
    by (simp add: interact_def script_solve solve_handler_records session_of_def
        sample_widgets_def raising_env_def seed_messages_def records_def)
  have r1: "records (session_of (script answering_env (sample_widgets\<lparr>clicked := SolveClick\<rparr>)
        started_session)) =
       [greeting, user_message ''Solve for x: 2x + 5 = 15'', assistant_message ''x = 5'']"
    unfolding first by (simp add: records_def)
  from k c b q r1 second kept show ?thesis
    unfolding first by blast
qed

text \<open>
  Claim C10 does not hold as it is stated: in a fresh session with no key in the
  environment the widgets have their defaults, the execution stops at the key check, and
  the session state has no conversation, so there is no greeting record in it.
\<close>

theorem fresh_session_without_key_not_seeded:
  "fresh_widgets None = Some no_key_widgets
   \<and> messages (session_of (interact answering_env answering_env no_key_widgets new_session)) = None
   \<and> messages (session_of (interact answering_env answering_env no_key_widgets new_session))
       \<noteq> Some [greeting]"
  by (simp add: fresh_widgets_def selectbox_default_def model_selectbox_def model_options_def
      default_api_key_def temperature_slider_def show_reasoning_checkbox_def no_key_widgets_def
      interact_def script_def session_of_def new_session_def)

text \<open>
  Claim C10, amended. In a fresh session the selected model is gemma2-9b-it, the first
  of the four options, the temperature is 0.2 on a slider from 0 to 1 in steps of 0.1,
  and the reasoning flag is true. The conversation is seeded with exactly the greeting
  by an execution that has a key and constructs the model client; an execution that
  stops at the key check or at the failed construction leaves the session without a
  conversation.
\<close>

theorem fresh_session_defaults:
  "fresh_widgets var =
     Some \<lparr>groq_api_key = default_api_key var, selected_model = ''gemma2-9b-it'',
           temperature = 0.2, show_reasoning = True, question = [], clicked = NoClick\<rparr>
   \<and> options model_selectbox =
       [''gemma2-9b-it'', ''llama3-8b-8192'', ''llama3-70b-8192'', ''mixtral-8x7b-32768'']
   \<and> index model_selectbox = 0
   \<and> temperature_slider =
       \<lparr>min_value = 0, max_value = 1, initial_value = 0.2, step = 0.1\<rparr>
   \<and> show_reasoning_checkbox
   \<and> (fresh_widgets var = Some w \<and> groq_api_key w \<noteq> [] \<and> chat_groq e (chat_groq_args w) = None
        \<longrightarrow> messages (session_of (script e w new_session)) = Some [greeting]
            \<and> interact e e' w new_session = script e w new_session)
   \<and> (fresh_widgets var = Some w \<and> (groq_api_key w = [] \<or> chat_groq e (chat_groq_args w) \<noteq> None)
        \<longrightarrow> messages (session_of (script e w new_session)) = None)"
proof -
  have fw: "fresh_widgets var =
     Some \<lparr>groq_api_key = default_api_key var, selected_model = ''gemma2-9b-it'',
           temperature = 0.2, show_reasoning = True, question = [], clicked = NoClick\<rparr>"
    by (simp add: fresh_widgets_def selectbox_default_def model_selectbox_def model_options_def
        temperature_slider_def show_reasoning_checkbox_def)
  have sb: "options model_selectbox =
       [''gemma2-9b-it'', ''llama3-8b-8192'', ''llama3-70b-8192'', ''mixtral-8x7b-32768'']
     \<and> index model_selectbox = 0"
    by (simp add: model_selectbox_def model_options_def)
  have sl: "temperature_slider =
       \<lparr>min_value = 0, max_value = 1, initial_value = 0.2, step = 0.1\<rparr>"
    by (simp add: temperature_slider_def)
  have cb: show_reasoning_checkbox
    by (simp add: show_reasoning_checkbox_def)
  have seeded: "messages (session_of (script e w new_session)) = Some [greeting]
            \<and> interact e e' w new_session = script e w new_session"
    if "fresh_widgets var = Some w \<and> groq_api_key w \<noteq> [] \<and> chat_groq e (chat_groq_args w) = None"
  proof -
    from that fw have "clicked w = NoClick" by auto
    with that show ?thesis
      by (simp add: script_def interact_def session_of_def Let_def example_buttons_NoClick
          seed_messages_def new_session_def)
  qed
  have halted: "messages (session_of (script e w new_session)) = None"
    if "fresh_widgets var = Some w \<and> (groq_api_key w = [] \<or> chat_groq e (chat_groq_args w) \<noteq> None)"
    using that by (auto simp: script_def session_of_def Let_def new_session_def)
  from fw sb sl cb seeded halted show ?thesis by blast
qed

theorem fresh_session_defaults_witness:
  "fresh_widgets (Some ''gsk_test'') = Some (sample_widgets\<lparr>question := []\<rparr>)
   \<and> groq_api_key (sample_widgets\<lparr>question := []\<rparr>) \<noteq> []
   \<and> chat_groq answering_env (chat_groq_args (sample_widgets\<lparr>question := []\<rparr>)) = None
   \<and> messages (session_of (script answering_env (sample_widgets\<lparr>question := []\<rparr>) new_session))
       = Some [greeting]
   \<and> fresh_widgets None = Some no_key_widgets
   \<and> groq_api_key no_key_widgets = []
   \<and> messages (session_of (script answering_env no_key_widgets new_session)) = None"
proof -
  have f1: "fresh_widgets (Some ''gsk_test'') = Some (sample_widgets\<lparr>question := []\<rparr>)"
    by (simp add: fresh_session_defaults [of "Some ''gsk_test''"] sample_widgets_def
        default_api_key_def)
  have k1: "groq_api_key (sample_widgets\<lparr>question := []\<rparr>) \<noteq> []"
    by (simp add: sample_widgets_def)
  have c1: "chat_groq answering_env (chat_groq_args (sample_widgets\<lparr>question := []\<rparr>)) = None"
    by (simp add: answering_env_def)
  have f2: "fresh_widgets None = Some no_key_widgets"
    by (simp add: fresh_session_defaults [of None] no_key_widgets_def default_api_key_def)
  have k2: "groq_api_key no_key_widgets = []"
    by (simp add: no_key_widgets_def)
  from f1 k1 c1
    fresh_session_defaults [of "Some ''gsk_test''" "sample_widgets\<lparr>question := []\<rparr>" answering_env]
  have seeded: "messages (session_of (script answering_env (sample_widgets\<lparr>question := []\<rparr>)
      new_session)) = Some [greeting]"
    by blast
  from f2 k2 fresh_session_defaults [of None no_key_widgets answering_env]
  have halted: "messages (session_of (script answering_env no_key_widgets new_session)) = None"
    by blast
  from f1 k1 c1 seeded f2 k2 halted show ?thesis by blast
qed

end
